theory Spec2Isabelle
  imports Main "HOL-Library.AList"
begin

section \<open>JavaScript values used by the hook\<close>

text \<open>
  Strings are character lists; the dot is one character in JavaScript's encoding as well.
  \<open>split\<close> is \<^verbatim>\<open>String.prototype.split\<close> with a
  one-character separator: the empty string gives one empty piece, and every occurrence of
  the separator starts a new piece. \<open>join\<close> is \<^verbatim>\<open>Array.prototype.join\<close> on an array
  of strings: the empty array gives the empty string.
\<close>

fun split :: "char \<Rightarrow> string \<Rightarrow> string list" where
  "split c [] = [[]]"
| "split c (x # xs) =
     (if x = c then [] # split c xs
      else (case split c xs of [] \<Rightarrow> [[x]] | w # ws \<Rightarrow> (x # w) # ws))"

fun join :: "string \<Rightarrow> string list \<Rightarrow> string" where
  "join sep [] = []"
| "join sep [x] = x"
| "join sep (x # y # ys) = x @ sep @ join sep (y # ys)"

text \<open>
  A plain object is an association list in insertion order with distinct keys.
  \<^verbatim>\<open>Object.assign(o, {[k]: v})\<close> is \<^const>\<open>AList.update\<close>: an existing key keeps its place
  and takes the new value, a new key goes to the end. The spread \<^verbatim>\<open>{...a, ...b}\<close> assigns
  the properties of \<open>b\<close> to a copy of \<open>a\<close>, one after the other. JavaScript lists keys that
  are array indices before the others; the keys here are column names and the three
  reserved names, and that reordering is left out. So is the key \<^verbatim>\<open>__proto__\<close>, which
  an assignment takes for the prototype and not for a property.
\<close>

definition spread :: "('k \<times> 'v) list \<Rightarrow> ('k \<times> 'v) list \<Rightarrow> ('k \<times> 'v) list" where
  "spread a b = foldl (\<lambda>obj (k, v). AList.update k v obj) a b"

text \<open>JavaScript default parameters: the default applies when the caller omits the value.\<close>

definition dflt :: "'a \<Rightarrow> 'a option \<Rightarrow> 'a" where
  "dflt d v = (case v of None \<Rightarrow> d | Some x \<Rightarrow> x)"

section \<open>Data model of \<^verbatim>\<open>use-data-table.ts\<close>\<close>

text \<open>
  A value of the query state: \<^verbatim>\<open>null\<close>, a string (\<^verbatim>\<open>parseAsString\<close>) or an integer
  (\<^verbatim>\<open>parseAsInteger\<close>). The same type serves for the object handed to
  \<^verbatim>\<open>setQueryState\<close>, where \<^verbatim>\<open>null\<close> removes the key from the address bar.
\<close>

datatype qval = QNull | QStr string | QInt int

type_synonym query_state = "(string \<times> qval) list"

text \<open>
  The value of a column filter is \<^verbatim>\<open>unknown\<close> in the table library. The hook
  distinguishes a string, an array (of strings, as the faceted filter stores them) and
  anything else. On such values \<^verbatim>\<open>JSON.parse\<close> after \<^verbatim>\<open>JSON.stringify\<close> changes
  nothing.
\<close>

datatype fval = FStr string | FArr "string list" | FOther

record column_filter =
  id_cf :: string
  value_cf :: fval

record column_sort =
  desc :: bool
  id_cs :: string

record filter_option =
  label_fo :: string
  value_fo :: string

record filter_field =
  label_ff :: string
  value_ff :: string
  placeholder :: "string option"
  options :: "filter_option list option"

text \<open>
  The props that the hook itself reads; \<open>columns\<close>, \<open>data\<close> and \<open>pageCount\<close> only
  pass through to the table library. An omitted prop is \<open>None\<close>.
\<close>

record props =
  defaultPageSize :: "int option"
  defaultSort :: "string option"
  enableAdvancedFilter :: "bool option"
  filterFields :: "filter_field list option"

text \<open>
  What one render of the hook sees besides its props: the query state returned by
  \<^verbatim>\<open>useQueryStates\<close>, the entries of \<^verbatim>\<open>useSearchParams()\<close>, the column filters
  held in React state, and the list that
  \<^verbatim>\<open>JSON.parse(useDebounce(JSON.stringify(...), 500))\<close> returns. The hook
  \<^verbatim>\<open>useDebounce\<close> is imported from another module, so its result is an input here.
\<close>

record render =
  queryState :: query_state
  searchParams :: "(string \<times> string) list"
  columnFilters :: "column_filter list"
  debouncedSearchableColumnFilters :: "column_filter list"

section \<open>Filterable and searchable columns\<close>

text \<open>
  \<^verbatim>\<open>field.options\<close> is truthy exactly when the property is present: an array is truthy
  even when it is empty.
\<close>

definition filterableColumns :: "props \<Rightarrow> filter_field list" where
  "filterableColumns p = filter (\<lambda>field. options field \<noteq> None) (dflt [] (filterFields p))"

definition searchableColumns :: "props \<Rightarrow> filter_field list" where
  "searchableColumns p = filter (\<lambda>field. \<not> (options field \<noteq> None)) (dflt [] (filterFields p))"

definition filterableColumnFilters :: "props \<Rightarrow> render \<Rightarrow> column_filter list" where
  "filterableColumnFilters p r =
     filter (\<lambda>f. find (\<lambda>column. value_ff column = id_cf f) (filterableColumns p) \<noteq> None)
       (columnFilters r)"

section \<open>The filter-synchronisation effect\<close>

text \<open>
  The calls the effect makes: \<^verbatim>\<open>setQueryState(obj)\<close> and \<^verbatim>\<open>table.setPageIndex(n)\<close>.
\<close>

datatype action = SetQueryState query_state | SetPageIndex int

text \<open>
  The bodies of the three loops that fill \<open>newParamsObject\<close>: the debounced searchable
  filters with a string value, the filterable filters with an array value, and the keys of
  the address bar that are to be removed (\<open>deleted\<close> is the condition of that loop).
\<close>

definition assignSearchable :: "query_state \<Rightarrow> column_filter \<Rightarrow> query_state" where
  "assignSearchable obj column =
     (case value_cf column of
        FStr s \<Rightarrow> AList.update (id_cf column) (QStr s) obj
      | _ \<Rightarrow> obj)"

definition assignFilterable :: "query_state \<Rightarrow> column_filter \<Rightarrow> query_state" where
  "assignFilterable obj column =
     (case value_cf column of
        FArr xs \<Rightarrow> AList.update (id_cf column) (QStr (join ''.'' xs)) obj
      | _ \<Rightarrow> obj)"

definition deleted :: "props \<Rightarrow> render \<Rightarrow> string \<Rightarrow> bool" where
  "deleted p r key \<longleftrightarrow>
     (list_ex (\<lambda>column. value_ff column = key) (searchableColumns p) \<and>
      \<not> list_ex (\<lambda>column. id_cf column = key) (debouncedSearchableColumnFilters r)) \<or>
     (list_ex (\<lambda>column. value_ff column = key) (filterableColumns p) \<and>
      \<not> list_ex (\<lambda>column. id_cf column = key) (filterableColumnFilters p r))"

definition assignDeleted :: "props \<Rightarrow> render \<Rightarrow> query_state \<Rightarrow> string \<Rightarrow> query_state" where
  "assignDeleted p r obj key = (if deleted p r key then AList.update key QNull obj else obj)"

definition newParamsObject :: "props \<Rightarrow> render \<Rightarrow> query_state" where
  "newParamsObject p r =
     foldl (assignDeleted p r)
       (foldl assignFilterable
          (foldl assignSearchable [(''pageIndex'', QInt 0)] (debouncedSearchableColumnFilters r))
          (filterableColumnFilters p r))
       (map fst (searchParams r))"

text \<open>
  One run of the effect: from the \<open>mounted\<close> flag to the new flag and the calls made, in
  order.
\<close>

definition filterSyncEffect :: "props \<Rightarrow> render \<Rightarrow> bool \<Rightarrow> bool \<times> action list" where
  "filterSyncEffect p r mounted =
     (if dflt False (enableAdvancedFilter p) then (mounted, [])
      else if \<not> mounted then (True, [])
      else (mounted,
            [SetQueryState (spread (queryState r) (newParamsObject p r)), SetPageIndex 0]))"

text \<open>
  The effect over successive renders: the flag is threaded through, the calls are
  collected.
\<close>

fun filterSyncRuns :: "props \<Rightarrow> render list \<Rightarrow> bool \<Rightarrow> bool \<times> action list" where
  "filterSyncRuns p [] mounted = (mounted, [])"
| "filterSyncRuns p (r # rs) mounted =
     (case filterSyncEffect p r mounted of
        (mounted', acts) \<Rightarrow>
          (case filterSyncRuns p rs mounted' of
             (mounted'', acts') \<Rightarrow> (mounted'', acts @ acts')))"

section \<open>The query state bound to the table\<close>

text \<open>
  \<^verbatim>\<open>useQueryStates\<close>, \<^verbatim>\<open>parseAsString\<close> and \<^verbatim>\<open>parseAsInteger\<close> belong to the
  library \<^verbatim>\<open>nuqs\<close>. A parser reads the first value of its key in the address bar; when
  the key is absent, or the value does not parse, the result is the parser's default if it
  has one (\<^verbatim>\<open>withDefault\<close>) and \<^verbatim>\<open>null\<close> otherwise. The integer parse itself is a
  parameter (\<open>None\<close> for \<^verbatim>\<open>NaN\<close>).
\<close>

datatype parser = ParseAsString "string option" | ParseAsInteger "int option"

definition parseParam :: "(string \<Rightarrow> int option) \<Rightarrow> parser \<Rightarrow> string option \<Rightarrow> qval" where
  "parseParam parseInt parser v =
     (case parser of
        ParseAsString d \<Rightarrow>
          (case v of
             Some s \<Rightarrow> QStr s
           | None \<Rightarrow> (case d of Some s \<Rightarrow> QStr s | None \<Rightarrow> QNull))
      | ParseAsInteger d \<Rightarrow>
          (case Option.bind v parseInt of
             Some n \<Rightarrow> QInt n
           | None \<Rightarrow> (case d of Some n \<Rightarrow> QInt n | None \<Rightarrow> QNull)))"

definition useQueryStates ::
  "(string \<Rightarrow> int option) \<Rightarrow> (string \<times> parser) list \<Rightarrow> (string \<times> string) list \<Rightarrow> query_state" where
  "useQueryStates parseInt km sp = map (\<lambda>(key, parser). (key, parseParam parseInt parser (map_of sp key))) km"

definition keyMap :: "props \<Rightarrow> (string \<times> parser) list" where
  "keyMap p =
     foldl (\<lambda>km field. AList.update (value_ff field) (ParseAsString None) km) []
       (dflt [] (filterFields p))"

definition boundQueryState :: "(string \<Rightarrow> int option) \<Rightarrow> props \<Rightarrow> (string \<times> string) list \<Rightarrow> query_state" where
  "boundQueryState parseInt p sp =
     useQueryStates parseInt
       (spread (keyMap p)
          [(''pageIndex'', ParseAsInteger (Some 0)),
           (''pageSize'', ParseAsInteger (Some (dflt 10 (defaultPageSize p)))),
           (''sort'', ParseAsString (Some (dflt ''createdAt.desc'' (defaultSort p))))])
       sp"

section \<open>Initial column filters\<close>

text \<open>
  The reducer of \<open>initialColumnFilters\<close>. \<^verbatim>\<open>value?.length\<close> is truthy for a non-empty
  string only: \<^verbatim>\<open>null\<close> and numbers have no length.
\<close>

definition initialColumnFiltersStep ::
  "props \<Rightarrow> column_filter list \<Rightarrow> string \<times> qval \<Rightarrow> column_filter list" where
  "initialColumnFiltersStep p filters kv =
     (case kv of (key, val) \<Rightarrow>
        (let filterableColumn = find (\<lambda>column. value_ff column = key) (filterableColumns p);
             searchableColumn = find (\<lambda>column. value_ff column = key) (searchableColumns p)
         in case val of
              QStr s \<Rightarrow>
                if length s \<noteq> 0 \<and> filterableColumn \<noteq> None
                then filters @ [\<lparr>id_cf = key, value_cf = FArr (split CHR ''.'' s)\<rparr>]
                else if length s \<noteq> 0 \<and> searchableColumn \<noteq> None
                then filters @ [\<lparr>id_cf = key, value_cf = FArr [s]\<rparr>]
                else filters
            | _ \<Rightarrow> filters))"

definition initialColumnFilters :: "props \<Rightarrow> query_state \<Rightarrow> column_filter list" where
  "initialColumnFilters p qs = foldl (initialColumnFiltersStep p) [] qs"

text \<open>
  What the reducer appends for one key and its value, with each \<^verbatim>\<open>find\<close> read as
  membership of the key among the names of the columns.
\<close>

abbreviation keyFilters :: "props \<Rightarrow> string \<Rightarrow> qval \<Rightarrow> column_filter list" where
  "keyFilters p key v \<equiv>
     (case v of
        QStr s \<Rightarrow>
          if s \<noteq> [] \<and> key \<in> value_ff ` set (filterableColumns p)
          then [\<lparr>id_cf = key, value_cf = FArr (split CHR ''.'' s)\<rparr>]
          else if s \<noteq> [] \<and> key \<in> value_ff ` set (searchableColumns p)
          then [\<lparr>id_cf = key, value_cf = FArr [s]\<rparr>]
          else []
      | _ \<Rightarrow> [])"

section \<open>Sorting\<close>

text \<open>
  \<^verbatim>\<open>const [column, order] = queryState.sort?.split('.') ?? []\<close>: the first two pieces,
  each \<^verbatim>\<open>undefined\<close> when the array is too short.
\<close>

definition sortOf :: "query_state \<Rightarrow> string option" where
  "sortOf qs = (case map_of qs ''sort'' of Some (QStr s) \<Rightarrow> Some s | _ \<Rightarrow> None)"

definition destructure2 :: "'a list \<Rightarrow> 'a option \<times> 'a option" where
  "destructure2 xs =
     (case xs of
        [] \<Rightarrow> (None, None)
      | [x] \<Rightarrow> (Some x, None)
      | x # y # _ \<Rightarrow> (Some x, Some y))"

definition initialSorting :: "query_state \<Rightarrow> column_sort list" where
  "initialSorting qs =
     (case destructure2 (case sortOf qs of Some s \<Rightarrow> split CHR ''.'' s | None \<Rightarrow> []) of
        (column, order) \<Rightarrow> [\<lparr>desc = (order = Some ''desc''), id_cs = dflt [] column\<rparr>])"

text \<open>
  The sorting effect: \<^verbatim>\<open>sorting[0]?.id\<close> is falsy when there is no first entry or its
  id is the empty string.
\<close>

definition sortParam :: "column_sort list \<Rightarrow> qval" where
  "sortParam sorting =
     (case sorting of
        [] \<Rightarrow> QNull
      | s # _ \<Rightarrow>
          if id_cs s \<noteq> [] then QStr (id_cs s @ ''.'' @ (if desc s then ''desc'' else ''asc''))
          else QNull)"

definition sortingEffect :: "query_state \<Rightarrow> column_sort list \<Rightarrow> query_state" where
  "sortingEffect qs sorting = spread qs [(''sort'', sortParam sorting)]"

section \<open>\<^verbatim>\<open>data-table-advanced-filter-item.tsx\<close>\<close>

text \<open>
  \<^verbatim>\<open>URLSearchParams\<close> is the list of its entries. \<^verbatim>\<open>delete\<close> removes every entry of
  the key; \<^verbatim>\<open>set\<close> overwrites the first entry of the key and removes the others, or
  appends when there is none; \<^verbatim>\<open>get\<close> is the first value (\<^const>\<open>map_of\<close>).
  Serialising the entries and parsing them again gives the same entries, so
  \<open>createQueryString\<close> returns the entries that its string encodes.
\<close>

type_synonym url_params = "(string \<times> string) list"

definition sp_delete :: "string \<Rightarrow> url_params \<Rightarrow> url_params" where
  "sp_delete key ps = filter (\<lambda>e. fst e \<noteq> key) ps"

fun sp_set :: "string \<Rightarrow> string \<Rightarrow> url_params \<Rightarrow> url_params" where
  "sp_set key v [] = [(key, v)]"
| "sp_set key v (e # ps) =
     (if fst e = key then (key, v) # sp_delete key ps else e # sp_set key v ps)"

datatype pval = PNull | PStr string | PNum int

text \<open>
  \<^verbatim>\<open>String(value)\<close>: a string is itself, a number its decimal numeral. Numbers are
  the integers, which JavaScript prints in full below \<open>10\<^sup>2\<^sup>1\<close>; the effect below passes
  strings and \<^verbatim>\<open>null\<close> only.
\<close>

fun digits :: "nat \<Rightarrow> string" where
  "digits n =
     (if n < 10 then [char_of (48 + n)]
      else digits (n div 10) @ [char_of (48 + n mod 10)])"

definition String_js :: "pval \<Rightarrow> string" where
  "String_js v =
     (case v of
        PNull \<Rightarrow> ''null''
      | PStr s \<Rightarrow> s
      | PNum i \<Rightarrow> (if i < 0 then CHR ''-'' # digits (nat (- i)) else digits (nat i)))"

definition createQueryStringStep :: "url_params \<Rightarrow> string \<times> pval \<Rightarrow> url_params" where
  "createQueryStringStep newSearchParams kv =
     (case kv of (key, val) \<Rightarrow>
        if val = PNull then sp_delete key newSearchParams
        else sp_set key (String_js val) newSearchParams)"

definition createQueryString :: "url_params \<Rightarrow> (string \<times> pval) list \<Rightarrow> url_params" where
  "createQueryString urlParams params = foldl createQueryStringStep urlParams params"

text \<open>\<^verbatim>\<open>router.push(`${pathname}?${query}`, { scroll: false })\<close>.\<close>

datatype navigation = Push string url_params

text \<open>
  The effect of \<open>DataTableAdvancedFilterItem\<close> on \<open>debounceValue\<close> and
  \<open>filterVariety\<close>; \<open>selected\<close> is \<^verbatim>\<open>selectedOption.value\<close> and \<open>urlParams\<close>
  the entries of \<^verbatim>\<open>useSearchParams()\<close>.
\<close>

definition advancedFilterItemEffect ::
  "string \<Rightarrow> url_params \<Rightarrow> string \<Rightarrow> string \<Rightarrow> string \<Rightarrow> navigation list" where
  "advancedFilterItemEffect pathname urlParams selected debounceValue filterVariety =
     (if length debounceValue > 0
      then [Push pathname
              (createQueryString urlParams
                 [(selected,
                   PStr (debounceValue @
                         (if length debounceValue > 0 then ''.'' @ filterVariety else [])))])]
      else []) @
     (if length debounceValue = 0
      then [Push pathname (createQueryString urlParams [(selected, PNull)])]
      else [])"

section \<open>Example inputs\<close>

text \<open>
  The filter fields of the hook's documentation: a search filter on \<open>title\<close> and a faceted
  filter on \<open>status\<close>.
\<close>

definition exampleFields :: "filter_field list" where
  "exampleFields =
     [\<lparr>label_ff = ''Title'', value_ff = ''title'', placeholder = Some ''Search titles'',
       options = None\<rparr>,
      \<lparr>label_ff = ''Status'', value_ff = ''status'', placeholder = None,
       options = Some [\<lparr>label_fo = ''Todo'', value_fo = ''todo''\<rparr>,
                       \<lparr>label_fo = ''Done'', value_fo = ''done''\<rparr>]\<rparr>]"

definition exampleProps :: props where
  "exampleProps =
     \<lparr>defaultPageSize = None, defaultSort = Some ''title.asc'', enableAdvancedFilter = None,
      filterFields = Some exampleFields\<rparr>"

definition advancedProps :: props where
  "advancedProps = exampleProps\<lparr>enableAdvancedFilter := Some True\<rparr>"

text \<open>
  A render on page 3 with a stale \<open>status\<close> parameter in the address bar and a text
  filter on \<open>title\<close>.
\<close>

definition exampleRender :: render where
  "exampleRender =
     \<lparr>queryState =
        [(''title'', QNull), (''status'', QStr ''todo''), (''pageIndex'', QInt 2),
         (''pageSize'', QInt 10), (''sort'', QStr ''title.asc'')],
      searchParams = [(''status'', ''todo''), (''pageIndex'', ''2'')],
      columnFilters = [\<lparr>id_cf = ''title'', value_cf = FStr ''abc''\<rparr>],
      debouncedSearchableColumnFilters = [\<lparr>id_cf = ''title'', value_cf = FStr ''abc''\<rparr>]\<rparr>"

text \<open>A table whose data has a searchable column called \<open>pageIndex\<close>.\<close>

definition pageIndexProps :: props where
  "pageIndexProps =
     \<lparr>defaultPageSize = None, defaultSort = None, enableAdvancedFilter = None,
      filterFields =
        Some [\<lparr>label_ff = ''Page'', value_ff = ''pageIndex'', placeholder = None,
               options = None\<rparr>]\<rparr>"

definition pageIndexRender :: render where
  "pageIndexRender =
     \<lparr>queryState =
        [(''pageIndex'', QInt 0), (''pageSize'', QInt 10), (''sort'', QStr ''createdAt.desc'')],
      searchParams = [],
      columnFilters = [\<lparr>id_cf = ''pageIndex'', value_cf = FStr ''7''\<rparr>],
      debouncedSearchableColumnFilters = [\<lparr>id_cf = ''pageIndex'', value_cf = FStr ''7''\<rparr>]\<rparr>"

text \<open>A query state as it is restored from an address bar with filters.\<close>

definition restoredState :: query_state where
  "restoredState =
     [(''title'', QStr ''abc''), (''status'', QStr ''todo.done''), (''pageIndex'', QInt 0),
      (''pageSize'', QInt 10), (''sort'', QStr ''title.asc'')]"

text \<open>A faceted and a search filter declared on the same column.\<close>

definition doubleProps :: props where
  "doubleProps =
     \<lparr>defaultPageSize = None, defaultSort = None, enableAdvancedFilter = None,
      filterFields =
        Some [\<lparr>label_ff = ''Status'', value_ff = ''status'', placeholder = None,
               options = Some [\<lparr>label_fo = ''Todo'', value_fo = ''todo''\<rparr>]\<rparr>,
              \<lparr>label_ff = ''Status text'', value_ff = ''status'', placeholder = None,
               options = None\<rparr>]\<rparr>"







definition dottedSort :: column_sort where
  "dottedSort = \<lparr>desc = True, id_cs = ''user.name''\<rparr>"

definition titleSort :: column_sort where
  "titleSort = \<lparr>desc = True, id_cs = ''title''\<rparr>"

section \<open>Auxiliary facts\<close>

subsection \<open>Strings and objects\<close>

lemma split_not_Nil: "split c s \<noteq> []"
  by (induction s) (auto split: list.splits)


lemma split_append_sep: "c \<notin> set w \<Longrightarrow> split c (w @ c # rest) = w # split c rest"
  by (induction w) (auto split: list.splits simp: split_not_Nil)



lemma map_of_spread:
  "map_of (spread a b) k = (case map_of (rev b) k of Some v \<Rightarrow> Some v | None \<Rightarrow> map_of a k)"
  unfolding spread_def
  by (induction b rule: rev_induct) (auto simp: update_conv' split: option.splits)

lemma map_of_rev_distinct: "distinct (map fst xs) \<Longrightarrow> map_of (rev xs) k = map_of xs k"
proof (induction xs)
  case Nil
  then show ?case by simp
next
  case (Cons x xs)
  then have "map_of (rev xs) (fst x) = None"
    by (simp add: map_of_eq_None_iff)
  with Cons show ?case
    by (cases x) (auto simp: map_add_def split: option.splits)
qed

lemma map_of_foldl_assignDeleted:
  "map_of (foldl (assignDeleted p r) obj keys) k =
     (if k \<in> set keys \<and> deleted p r k then Some QNull else map_of obj k)"
  by (induction keys rule: rev_induct) (auto simp: assignDeleted_def update_conv')

lemma distinct_foldl_assignDeleted:
  "distinct (map fst obj) \<Longrightarrow> distinct (map fst (foldl (assignDeleted p r) obj keys))"
  by (induction keys rule: rev_induct) (auto simp: assignDeleted_def distinct_update)

lemma distinct_foldl_assignSearchable:
  "distinct (map fst obj) \<Longrightarrow> distinct (map fst (foldl assignSearchable obj fs))"
  by (induction fs rule: rev_induct) (auto simp: assignSearchable_def distinct_update split: fval.splits)

lemma distinct_foldl_assignFilterable:
  "distinct (map fst obj) \<Longrightarrow> distinct (map fst (foldl assignFilterable obj fs))"
  by (induction fs rule: rev_induct) (auto simp: assignFilterable_def distinct_update split: fval.splits)

lemma distinct_newParamsObject: "distinct (map fst (newParamsObject p r))"
  unfolding newParamsObject_def
  by (intro distinct_foldl_assignDeleted distinct_foldl_assignFilterable distinct_foldl_assignSearchable) simp

lemma map_of_foldl_assignSearchable_other:
  "k \<notin> id_cf ` set fs \<Longrightarrow> map_of (foldl assignSearchable obj fs) k = map_of obj k"
  by (induction fs rule: rev_induct) (auto simp: assignSearchable_def update_conv' split: fval.splits)

lemma map_of_foldl_assignFilterable_other:
  "k \<notin> id_cf ` set fs \<Longrightarrow> map_of (foldl assignFilterable obj fs) k = map_of obj k"
  by (induction fs rule: rev_induct) (auto simp: assignFilterable_def update_conv' split: fval.splits)


lemma find_names_None:
  "find (\<lambda>column. value_ff column = k) cs = None \<longleftrightarrow> k \<notin> value_ff ` set cs"
  by (auto simp: find_None_iff)

lemma list_ex_names: "list_ex (\<lambda>column. value_ff column = k) cs \<longleftrightarrow> k \<in> value_ff ` set cs"
  by (auto simp: list_ex_iff)


lemma ids_filterableColumnFilters:
  "id_cf ` set (filterableColumnFilters p r) =
     id_cf ` set (columnFilters r) \<inter> value_ff ` set (filterableColumns p)"
proof -
  have "id_cf f \<in> value_ff ` set cs \<longleftrightarrow> (\<exists>c\<in>set cs. value_ff c = id_cf f)" for f cs
    by (metis (no_types) image_iff)
  then show ?thesis
    unfolding filterableColumnFilters_def by (force simp: find_None_iff)
qed

lemma names_columns:
  "value_ff ` set (filterableColumns p) \<subseteq> value_ff ` set (dflt [] (filterFields p))"
  "value_ff ` set (searchableColumns p) \<subseteq> value_ff ` set (dflt [] (filterFields p))"
  by (auto simp: filterableColumns_def searchableColumns_def)


lemma filter_sync_post_mount:
  "\<not> dflt False (enableAdvancedFilter p) \<Longrightarrow>
   filterSyncEffect p r True =
     (True, [SetQueryState (spread (queryState r) (newParamsObject p r)), SetPageIndex 0])"
  by (simp add: filterSyncEffect_def)

lemma map_of_pushed:
  "map_of (spread qs (newParamsObject p r)) k =
     (case map_of (newParamsObject p r) k of Some v \<Rightarrow> Some v | None \<Rightarrow> map_of qs k)"
  by (simp add: map_of_spread map_of_rev_distinct distinct_newParamsObject)


subsection \<open>Initial column filters, key by key\<close>

lemma initialColumnFiltersStep_eq:
  "initialColumnFiltersStep p filters (k, v) = filters @ keyFilters p k v"
  by (cases v) (simp_all add: initialColumnFiltersStep_def find_names_None)

lemma initialColumnFilters_snoc:
  "initialColumnFilters p (qs @ [(k, v)]) = initialColumnFilters p qs @ keyFilters p k v"
  by (simp only: initialColumnFilters_def foldl_append foldl.simps initialColumnFiltersStep_eq)

lemma id_keyFilters: "f \<in> set (keyFilters p k v) \<Longrightarrow> id_cf f = k"
  by (cases v) (simp_all split: if_splits)

lemma filter_keyFilters_same: "filter (\<lambda>f. id_cf f = k) (keyFilters p k v) = keyFilters p k v"
  by (cases v) simp_all

lemma filter_keyFilters_other:
  "k \<noteq> key \<Longrightarrow> filter (\<lambda>f. id_cf f = key) (keyFilters p k v) = []"
  by (cases v) simp_all


lemma ids_initialColumnFilters:
  "f \<in> set (initialColumnFilters p qs) \<Longrightarrow> id_cf f \<in> fst ` set qs"
proof (induction qs arbitrary: f rule: rev_induct)
  case Nil
  then show ?case by (simp add: initialColumnFilters_def)
next
  case (snoc kv qs)
  obtain k v where kv: "kv = (k, v)" by (cases kv)
  from snoc.prems have "f \<in> set (initialColumnFilters p qs) \<or> f \<in> set (keyFilters p k v)"
    unfolding kv initialColumnFilters_snoc by simp
  then show ?case
  proof
    assume "f \<in> set (initialColumnFilters p qs)"
    then have "id_cf f \<in> fst ` set qs" by (rule snoc.IH)
    then show ?thesis by simp
  next
    assume "f \<in> set (keyFilters p k v)"
    then have "id_cf f = k" by (rule id_keyFilters)
    then show ?thesis by (simp add: kv)
  qed
qed

lemma filter_initialColumnFilters:
  "distinct (map fst qs) \<Longrightarrow>
   filter (\<lambda>f. id_cf f = key) (initialColumnFilters p qs) =
     (case map_of qs key of Some v \<Rightarrow> keyFilters p key v | None \<Rightarrow> [])"
proof (induction qs rule: rev_induct)
  case Nil
  then show ?case by (simp add: initialColumnFilters_def)
next
  case (snoc kv qs)
  obtain k v where kv: "kv = (k, v)" by (cases kv)
  from snoc.prems have d: "distinct (map fst qs)" and fresh: "k \<notin> fst ` set qs"
    by (simp_all add: kv)
  let ?P = "\<lambda>f. id_cf f = key"
  have split_filter: "filter ?P (initialColumnFilters p (qs @ [kv])) =
      filter ?P (initialColumnFilters p qs) @ filter ?P (keyFilters p k v)"
    unfolding kv initialColumnFilters_snoc by (rule filter_append)
  show ?case
  proof (cases "k = key")
    case True
    have old: "filter ?P (initialColumnFilters p qs) = []"
      using fresh ids_initialColumnFilters [of _ p qs]
      unfolding True filter_empty_conv by blast
    have "map_of qs key = None"
      using fresh unfolding True by (simp add: map_of_eq_None_iff)
    then have new: "map_of (qs @ [kv]) key = Some v"
      unfolding kv True by (simp add: map_add_def)
    show ?thesis
      unfolding split_filter old new unfolding True filter_keyFilters_same by simp
  next
    case False
    from False have same: "map_of (qs @ [kv]) key = map_of qs key"
      unfolding kv by (simp add: map_add_def split: option.splits)
    show ?thesis
      unfolding split_filter filter_keyFilters_other [OF False] same
      using snoc.IH [OF d] by simp
  qed
qed


subsection \<open>The bound query state\<close>











lemma map_of_useQueryStates_empty:
  "map_of (useQueryStates parseInt km []) k = map_option (\<lambda>parser. parseParam parseInt parser None) (map_of km k)"
  by (induction km) (auto simp: useQueryStates_def)

subsection \<open>URL search parameters\<close>

lemma map_of_sp_delete: "map_of (sp_delete k ps) k = None"
  by (induction ps) (auto simp: sp_delete_def)

lemma map_of_sp_set: "map_of (sp_set k v ps) k = Some v"
  by (induction ps) auto

lemma rest_sp_delete: "filter (\<lambda>e. fst e \<noteq> k) (sp_delete k ps) = filter (\<lambda>e. fst e \<noteq> k) ps"
  by (induction ps) (auto simp: sp_delete_def)

lemma rest_sp_set: "filter (\<lambda>e. fst e \<noteq> k) (sp_set k v ps) = filter (\<lambda>e. fst e \<noteq> k) ps"
  by (induction ps) (auto simp: rest_sp_delete)

lemma map_of_sortingEffect: "map_of (sortingEffect qs sorting) ''sort'' = Some (sortParam sorting)"
  by (simp add: sortingEffect_def map_of_spread)

section \<open>Sorting and the address bar\<close>

text \<open>
  C1, as stated, fails: a column id that contains a dot is not restored. Sorting by
  \<open>user.name\<close>, descending, is written as \<open>user.name.desc\<close> and read back as column
  \<open>user\<close>, ascending.
\<close>

theorem sorting_round_trip_counterexample:
  "id_cs dottedSort \<noteq> [] \<and>
   map_of (sortingEffect [] [dottedSort]) ''sort'' = Some (QStr ''user.name.desc'') \<and>
   initialSorting (sortingEffect [] [dottedSort]) = [\<lparr>desc = False, id_cs = ''user''\<rparr>] \<and>
   initialSorting (sortingEffect [] [dottedSort]) \<noteq> [dottedSort]"
  by (simp add: dottedSort_def map_of_sortingEffect sortParam_def initialSorting_def sortOf_def
      destructure2_def dflt_def)

text \<open>
  C1, amended. For every sorting state whose first entry has a non-empty column id without
  a dot, the sorting effect sets \<open>sort\<close> to \<open><id>.desc\<close> when descending and to
  \<open><id>.asc\<close> when ascending, and the initial sorting computed from any query state with
  that \<open>sort\<close> is the same column id with the same direction.
\<close>

theorem sorting_round_trip:
  assumes "sorting = s # rest" and "id_cs s \<noteq> []" and "CHR ''.'' \<notin> set (id_cs s)"
  shows "map_of (sortingEffect qs sorting) ''sort'' =
           Some (QStr (id_cs s @ ''.'' @ (if desc s then ''desc'' else ''asc''))) \<and>
         (\<forall>qs'. map_of qs' ''sort'' = map_of (sortingEffect qs sorting) ''sort'' \<longrightarrow>
            initialSorting qs' = [s])"
  using assms
  by (simp add: map_of_sortingEffect sortParam_def initialSorting_def sortOf_def
      split_append_sep destructure2_def dflt_def)


theorem sorting_round_trip_witness:
  "id_cs titleSort \<noteq> [] \<and> CHR ''.'' \<notin> set (id_cs titleSort) \<and>
   map_of (sortingEffect (queryState exampleRender) [titleSort]) ''sort'' =
     Some (QStr ''title.desc'') \<and>
   initialSorting (sortingEffect (queryState exampleRender) [titleSort]) = [titleSort]"
  using sorting_round_trip [of "[titleSort]" titleSort "[]" "queryState exampleRender"]
  by (simp add: titleSort_def)

section \<open>Default query state\<close>

text \<open>
  C5. With no query parameter in the address bar, the query state bound to the table has
  \<open>pageIndex\<close> 0, \<open>pageSize\<close> equal to \<open>defaultPageSize\<close> (10 when omitted) and \<open>sort\<close>
  equal to \<open>defaultSort\<close> (\<open>createdAt.desc\<close> when omitted), whatever the filter fields are.
\<close>

theorem default_query_state:
  "map_of (boundQueryState parseInt p []) ''pageIndex'' = Some (QInt 0) \<and>
   map_of (boundQueryState parseInt p []) ''pageSize'' =
     Some (QInt (case defaultPageSize p of None \<Rightarrow> 10 | Some n \<Rightarrow> n)) \<and>
   map_of (boundQueryState parseInt p []) ''sort'' =
     Some (QStr (case defaultSort p of None \<Rightarrow> ''createdAt.desc'' | Some s \<Rightarrow> s))"
  by (simp add: boundQueryState_def map_of_useQueryStates_empty map_of_spread parseParam_def
      dflt_def)

theorem default_query_state_witness:
  "map_of (boundQueryState (\<lambda>s. None) exampleProps []) ''pageIndex'' = Some (QInt 0) \<and>
   map_of (boundQueryState (\<lambda>s. None) exampleProps []) ''pageSize'' = Some (QInt 10) \<and>
   map_of (boundQueryState (\<lambda>s. None) exampleProps []) ''sort'' = Some (QStr ''title.asc'') \<and>
   map_of (boundQueryState (\<lambda>s. None) pageIndexProps []) ''sort'' = Some (QStr ''createdAt.desc'')"
  using default_query_state [of "\<lambda>s. None" exampleProps]
    default_query_state [of "\<lambda>s. None" pageIndexProps]
  by (simp add: exampleProps_def pageIndexProps_def)

section \<open>Restoring filters from the query state\<close>

text \<open>
  C3, as stated, fails: when a column is declared both as a faceted and as a search filter,
  its key names a filter field without options, yet the value is split on the dot, because
  the field with options is tried first.
\<close>

theorem initial_filters_counterexample:
  "''status'' \<in> value_ff ` set (searchableColumns doubleProps) \<and>
   initialColumnFilters doubleProps [(''status'', QStr ''a.b'')] =
     [\<lparr>id_cf = ''status'', value_cf = FArr [''a'', ''b'']\<rparr>] \<and>
   initialColumnFilters doubleProps [(''status'', QStr ''a.b'')] \<noteq>
     [\<lparr>id_cf = ''status'', value_cf = FArr [''a.b'']\<rparr>]"
  by (simp add: doubleProps_def searchableColumns_def filterableColumns_def dflt_def
      initialColumnFilters_def initialColumnFiltersStep_def)

text \<open>
  C3, amended. For every key of a query state (keys distinct) with its value: if the value
  is a non-empty string and the key names a filter field with options, the initial column
  filter of the key is the string split on the dot; if the value is a non-empty string and
  the key names a filter field without options and none with options, it is the
  one-element array of the string; if the value is not a string, or is the empty string, or
  the key names no filter field, the key has no initial column filter.
\<close>

theorem initial_column_filters_from_query_state:
  assumes "distinct (map fst qs)" and "(key, v) \<in> set qs"
  shows "(\<forall>s. v = QStr s \<and> s \<noteq> [] \<and> key \<in> value_ff ` set (filterableColumns p) \<longrightarrow>
            filter (\<lambda>f. id_cf f = key) (initialColumnFilters p qs) =
              [\<lparr>id_cf = key, value_cf = FArr (split CHR ''.'' s)\<rparr>]) \<and>
         (\<forall>s. v = QStr s \<and> s \<noteq> [] \<and> key \<notin> value_ff ` set (filterableColumns p) \<and>
              key \<in> value_ff ` set (searchableColumns p) \<longrightarrow>
            filter (\<lambda>f. id_cf f = key) (initialColumnFilters p qs) =
              [\<lparr>id_cf = key, value_cf = FArr [s]\<rparr>]) \<and>
         ((\<forall>s. v \<noteq> QStr s) \<or> v = QStr [] \<or>
          (key \<notin> value_ff ` set (filterableColumns p) \<and>
           key \<notin> value_ff ` set (searchableColumns p)) \<longrightarrow>
            filter (\<lambda>f. id_cf f = key) (initialColumnFilters p qs) = [])"
proof -
  from assms have "map_of qs key = Some v"
    by simp
  with filter_initialColumnFilters [OF assms(1), of key p]
  have "filter (\<lambda>f. id_cf f = key) (initialColumnFilters p qs) = keyFilters p key v"
    by simp
  then show ?thesis
    by (cases v) simp_all
qed


theorem initial_column_filters_from_query_state_witness:
  "distinct (map fst restoredState) \<and>
   filter (\<lambda>f. id_cf f = ''status'') (initialColumnFilters exampleProps restoredState) =
     [\<lparr>id_cf = ''status'', value_cf = FArr [''todo'', ''done'']\<rparr>] \<and>
   filter (\<lambda>f. id_cf f = ''title'') (initialColumnFilters exampleProps restoredState) =
     [\<lparr>id_cf = ''title'', value_cf = FArr [''abc'']\<rparr>] \<and>
   filter (\<lambda>f. id_cf f = ''sort'') (initialColumnFilters exampleProps restoredState) = []"
proof -
  have d: "distinct (map fst restoredState)"
    by (simp add: restoredState_def)
  have names: "value_ff ` set (filterableColumns exampleProps) = {''status''}"
    "value_ff ` set (searchableColumns exampleProps) = {''title''}"
    by (simp_all add: filterableColumns_def searchableColumns_def exampleProps_def
        exampleFields_def dflt_def)
  have m: "(''status'', QStr ''todo.done'') \<in> set restoredState"
    "(''title'', QStr ''abc'') \<in> set restoredState"
    "(''sort'', QStr ''title.asc'') \<in> set restoredState"
    by (simp_all add: restoredState_def)
  from initial_column_filters_from_query_state [OF d m(1), of exampleProps]
  have a: "filter (\<lambda>f. id_cf f = ''status'') (initialColumnFilters exampleProps restoredState) =
     [\<lparr>id_cf = ''status'', value_cf = FArr [''todo'', ''done'']\<rparr>]"
    by (simp add: names)
  from initial_column_filters_from_query_state [OF d m(2), of exampleProps]
  have b: "filter (\<lambda>f. id_cf f = ''title'') (initialColumnFilters exampleProps restoredState) =
     [\<lparr>id_cf = ''title'', value_cf = FArr [''abc'']\<rparr>]"
    by (simp add: names)
  from initial_column_filters_from_query_state [OF d m(3), of exampleProps]
  have c: "filter (\<lambda>f. id_cf f = ''sort'') (initialColumnFilters exampleProps restoredState) = []"
    by (simp add: names)
  from d a b c show ?thesis by blast
qed

section \<open>Faceted filters and the address bar\<close>




section \<open>The filter-synchronisation effect after mount\<close>





text \<open>
  C8, as stated, fails: when a searchable column is called \<open>pageIndex\<close>, its text filter
  overwrites the page index of the pushed query state.
\<close>

theorem filter_change_resets_page_counterexample:
  "\<not> dflt False (enableAdvancedFilter pageIndexProps) \<and>
   filterSyncEffect pageIndexProps pageIndexRender True =
     (True,
      [SetQueryState
         [(''pageIndex'', QStr ''7''), (''pageSize'', QInt 10), (''sort'', QStr ''createdAt.desc'')],
       SetPageIndex 0])"
  by (simp add: filterSyncEffect_def pageIndexProps_def pageIndexRender_def dflt_def
      newParamsObject_def assignSearchable_def filterableColumnFilters_def
      filterableColumns_def spread_def)

text \<open>
  C8, amended. Every run of the effect after mount, with advanced filtering disabled,
  pushes a query state and then calls \<^verbatim>\<open>table.setPageIndex(0)\<close>, whatever the filters
  are; when no filter field is called \<open>pageIndex\<close> (and no debounced searchable filter
  has that id), the \<open>pageIndex\<close> of the pushed query state is 0.
\<close>

theorem filter_change_resets_page:
  assumes "\<not> dflt False (enableAdvancedFilter p)"
  shows "\<exists>qs. filterSyncEffect p r True = (True, [SetQueryState qs, SetPageIndex 0]) \<and>
              (''pageIndex'' \<notin> value_ff ` set (dflt [] (filterFields p)) \<and>
               ''pageIndex'' \<notin> id_cf ` set (debouncedSearchableColumnFilters r) \<longrightarrow>
                 map_of qs ''pageIndex'' = Some (QInt 0))"
proof -
  have "map_of (spread (queryState r) (newParamsObject p r)) ''pageIndex'' = Some (QInt 0)"
    if no_name: "''pageIndex'' \<notin> value_ff ` set (dflt [] (filterFields p))"
      and no_text: "''pageIndex'' \<notin> id_cf ` set (debouncedSearchableColumnFilters r)"
  proof -
    from no_name names_columns [of p]
    have no_field: "''pageIndex'' \<notin> value_ff ` set (searchableColumns p)"
      "''pageIndex'' \<notin> value_ff ` set (filterableColumns p)"
      by blast+
    then have "\<not> deleted p r ''pageIndex''"
      by (simp add: deleted_def list_ex_names)
    moreover from no_field have "''pageIndex'' \<notin> id_cf ` set (filterableColumnFilters p r)"
      by (simp add: ids_filterableColumnFilters)
    ultimately have "map_of (newParamsObject p r) ''pageIndex'' = Some (QInt 0)"
      using no_text
      by (simp add: newParamsObject_def map_of_foldl_assignDeleted
          map_of_foldl_assignFilterable_other map_of_foldl_assignSearchable_other)
    then show ?thesis
      by (simp add: map_of_pushed)
  qed
  with filter_sync_post_mount [OF assms] show ?thesis
    by blast
qed

theorem filter_change_resets_page_witness:
  "\<not> dflt False (enableAdvancedFilter exampleProps) \<and>
   ''pageIndex'' \<notin> value_ff ` set (dflt [] (filterFields exampleProps)) \<and>
   ''pageIndex'' \<notin> id_cf ` set (debouncedSearchableColumnFilters exampleRender) \<and>
   (\<exists>qs. filterSyncEffect exampleProps exampleRender True =
           (True, [SetQueryState qs, SetPageIndex 0]) \<and>
         map_of qs ''pageIndex'' = Some (QInt 0))"
proof -
  have h: "\<not> dflt False (enableAdvancedFilter exampleProps)"
    "''pageIndex'' \<notin> value_ff ` set (dflt [] (filterFields exampleProps))"
    "''pageIndex'' \<notin> id_cf ` set (debouncedSearchableColumnFilters exampleRender)"
    by (simp_all add: exampleProps_def exampleRender_def exampleFields_def dflt_def)
  with filter_change_resets_page [of exampleProps exampleRender]
  show ?thesis by blast
qed

section \<open>Opting out and the first run\<close>

text \<open>
  C9. With \<open>enableAdvancedFilter\<close> true, the effect returns at once: over any sequence of
  renders, whatever the column filters are, it makes no call (no query-state update, no
  page reset) and leaves the mounted flag as it was.
\<close>

theorem advanced_filter_opts_out:
  assumes "enableAdvancedFilter p = Some True"
  shows "filterSyncRuns p rs mounted = (mounted, [])"
  using assms
  by (induction rs arbitrary: mounted) (simp_all add: filterSyncEffect_def dflt_def)

theorem advanced_filter_opts_out_witness:
  "enableAdvancedFilter advancedProps = Some True \<and>
   filterSyncRuns advancedProps [exampleRender, pageIndexRender, exampleRender] False = (False, []) \<and>
   filterSyncRuns advancedProps [exampleRender, pageIndexRender] True = (True, [])"
proof -
  have h: "enableAdvancedFilter advancedProps = Some True"
    by (simp add: advancedProps_def)
  from h advanced_filter_opts_out [OF h] show ?thesis
    by blast
qed

text \<open>
  C10, as stated, fails: with advanced filtering enabled the first run returns before it
  reaches the mounted flag, which stays false.
\<close>

theorem first_run_counterexample:
  "filterSyncEffect advancedProps exampleRender False = (False, [])"
  by (simp add: filterSyncEffect_def advancedProps_def dflt_def)

text \<open>
  C10, amended. The first run of the effect (mounted flag false) makes no call: no
  query-state update and no page reset. With advanced filtering disabled it sets the
  mounted flag to true; with advanced filtering enabled it leaves the flag false.
\<close>

theorem first_run_makes_no_call:
  "filterSyncEffect p r False = (\<not> dflt False (enableAdvancedFilter p), [])"
  by (simp add: filterSyncEffect_def)

theorem first_run_makes_no_call_witness:
  "filterSyncEffect exampleProps exampleRender False = (True, []) \<and>
   filterSyncEffect pageIndexProps pageIndexRender False = (True, [])"
  using first_run_makes_no_call [of exampleProps exampleRender]
    first_run_makes_no_call [of pageIndexProps pageIndexRender]
  by (simp add: exampleProps_def pageIndexProps_def dflt_def)

section \<open>The advanced filter item\<close>

text \<open>
  C7. The effect of the advanced filter item makes one navigation. In its query
  parameters the parameter of the selected option is \<open><value>.<filterVariety>\<close> when the
  debounced value is not empty and absent when it is empty; the entries of every other
  parameter are those of the current address bar, in the same order.
\<close>

theorem advanced_filter_item_push:
  "\<exists>q. advancedFilterItemEffect pathname ps selected dv fv = [Push pathname q] \<and>
       map_of q selected = (if dv \<noteq> [] then Some (dv @ ''.'' @ fv) else None) \<and>
       filter (\<lambda>e. fst e \<noteq> selected) q = filter (\<lambda>e. fst e \<noteq> selected) ps"
  by (simp add: advancedFilterItemEffect_def createQueryString_def createQueryStringStep_def
      String_js_def map_of_sp_set map_of_sp_delete rest_sp_set rest_sp_delete)

theorem advanced_filter_item_push_witness:
  "\<exists>q. advancedFilterItemEffect ''/tasks''
          [(''title'', ''a.contains''), (''page'', ''2''), (''title'', ''b'')] ''title'' ''abc'' ''is'' =
          [Push ''/tasks'' q] \<and>
        map_of q ''title'' = Some ''abc.is'' \<and>
        filter (\<lambda>e. fst e \<noteq> ''title'') q = [(''page'', ''2'')]"
proof -
  let ?ps = "[(''title'', ''a.contains''), (''page'', ''2''), (''title'', ''b'')]"
  from advanced_filter_item_push [of "''/tasks''" ?ps "''title''" "''abc''" "''is''"]
  obtain q where q: "advancedFilterItemEffect ''/tasks'' ?ps ''title'' ''abc'' ''is'' = [Push ''/tasks'' q]"
    "map_of q ''title'' = (if ''abc'' \<noteq> [] then Some (''abc'' @ ''.'' @ ''is'') else None)"
    "filter (\<lambda>e. fst e \<noteq> ''title'') q = filter (\<lambda>e. fst e \<noteq> ''title'') ?ps"
    by blast
  from q(2) have "map_of q ''title'' = Some ''abc.is''"
    by simp
  moreover from q(3) have "filter (\<lambda>e. fst e \<noteq> ''title'') q = [(''page'', ''2'')]"
    by simp
  ultimately show ?thesis
    using q(1) by blast
qed


end
